theory Spec2Isabelle
  imports Complex_Main "HOL-Library.Multiset"
begin

section \<open>AQI dashboard: the data-refresh pipeline of \<^verbatim>\<open>app.py\<close>\<close>

text \<open>
  The program is a Streamlit script with one data-access function
  (\<^verbatim>\<open>get_latest_data\<close>) and two views that consume it (\<^verbatim>\<open>show_live_monitor\<close>,
  re-run by a timer as a fragment, and \<^verbatim>\<open>show_history\<close>). The embedding keeps
  that shape:
  \<^item> a row of the table \<^verbatim>\<open>sensordata\<close> is a record; a numeric cell is an integer, a
    finite float (the rational number it denotes) or a missing value;
  \<^item> the remote store is explicit state: a script of outcomes, one per round trip,
    and a counter of the round trips made so far;
  \<^item> every exception the source can raise is a value: \<open>Inl e\<close> where nothing is drawn
    before it, and otherwise \<open>Some e\<close> beside the elements drawn so far;
  \<^item> what a view draws is the list of elements it emits, in order.
\<close>

subsection \<open>Errors and cells\<close>

datatype py_error = IndexError | KeyError | ValueError | APIError string

text \<open>
  \<open>APIError\<close> stands for whatever the query of the store raises. A numeric cell is
  modelled as the data frame holds it: \<open>FloatCell q\<close> is a finite float, given by the
  rational number it denotes; \<open>NaNCell\<close> is a missing value (JSON \<^verbatim>\<open>null\<close>, which the
  frame holds as NaN); \<open>IntCell n\<close> is a cell of an integer column, whose integers are
  64-bit ones. How the frame's constructor picks a column type for the JSON numbers it
  is given is not part of the model.
\<close>

datatype cell = IntCell int | FloatCell rat | NaNCell

text \<open>
  Python's \<^verbatim>\<open>int(x)\<close>: the identity on an integer, truncation toward zero on a finite
  float, \<^verbatim>\<open>ValueError\<close> on NaN.
\<close>

definition trunc_toward_zero :: "rat \<Rightarrow> int" where
  "trunc_toward_zero q = (if 0 \<le> q then \<lfloor>q\<rfloor> else \<lceil>q\<rceil>)"

fun int_py :: "cell \<Rightarrow> py_error + int" where
  "int_py (IntCell n) = Inr n"
| "int_py (FloatCell q) = Inr (trunc_toward_zero q)"
| "int_py NaNCell = Inl ValueError"

subsection \<open>Rows and the data frame\<close>

text \<open>
  One row as the store returns it. \<open>created_at\<close> is the recorded instant (nanoseconds
  since the epoch, the form in which the frame holds a parsed timestamp).
\<close>

record row =
  row_id :: int
  created_at :: int
  mq135 :: cell
  temperature :: cell
  humidity :: cell
  aqi :: cell

text \<open>A zone-aware timestamp: the instant and the zone it is displayed in.\<close>

record timestamp =
  instant :: int
  tz :: string

definition to_datetime :: "int \<Rightarrow> timestamp" where
  "to_datetime i = \<lparr>instant = i, tz = ''UTC''\<rparr>"

definition tz_convert :: "string \<Rightarrow> timestamp \<Rightarrow> timestamp" where
  "tz_convert zone t = t\<lparr>tz := zone\<rparr>"

text \<open>A row of the frame after the columns are renamed and the time is converted.\<close>

record df_row =
  df_id :: int
  Timestamp :: timestamp
  MQ135 :: cell
  Temperature :: cell
  Humidity :: cell
  AQI :: cell

definition rename_row :: "row \<Rightarrow> df_row" where
  "rename_row r =
     \<lparr>df_id = row_id r,
      Timestamp = tz_convert ''Asia/Kolkata'' (to_datetime (created_at r)),
      MQ135 = mq135 r,
      Temperature = temperature r,
      Humidity = humidity r,
      AQI = aqi r\<rparr>"

text \<open>
  Lines 72--75 and 140--144: \<^verbatim>\<open>pd.DataFrame(rows)\<close>, the renaming of the columns and the
  conversion of the \<^verbatim>\<open>Timestamp\<close> column. A frame built from no rows has no columns,
  and \<^verbatim>\<open>df['Timestamp']\<close> raises \<^verbatim>\<open>KeyError\<close> there.
\<close>

definition load_frame :: "row list \<Rightarrow> py_error + df_row list" where
  "load_frame rows = (if rows = [] then Inl KeyError else Inr (map rename_row rows))"

text \<open>\<^verbatim>\<open>df.iloc[0]\<close>: the first row of the frame, \<^verbatim>\<open>IndexError\<close> on an empty frame.\<close>

fun iloc0 :: "df_row list \<Rightarrow> py_error + df_row" where
  "iloc0 [] = Inl IndexError"
| "iloc0 (r # _) = Inr r"

text \<open>
  \<^verbatim>\<open>df.sort_values('Timestamp')\<close>: ascending by the instant. The order pandas gives to
  rows of equal timestamp is not fixed by its default sort; the model keeps their
  input order.
\<close>

definition sort_values :: "df_row list \<Rightarrow> df_row list" where
  "sort_values df = sort_key (\<lambda>r. instant (Timestamp r)) df"

subsection \<open>Severity bands\<close>

text \<open>
  The six outcomes of the colour logic (lines 85--90). Each band stands for the pair
  of status text and colour that its branch assigns.
\<close>

datatype SeverityBand =
  Good | Moderate | UnhealthySensitive | Unhealthy | VeryUnhealthy | Hazardous

definition classify :: "int \<Rightarrow> SeverityBand" where
  "classify a =
     (if a \<le> 50 then Good
      else if a \<le> 100 then Moderate
      else if a \<le> 150 then UnhealthySensitive
      else if a \<le> 200 then Unhealthy
      else if a \<le> 300 then VeryUnhealthy
      else Hazardous)"

text \<open>The status texts end in an emoji, written here as its UTF-8 bytes.\<close>

fun status :: "SeverityBand \<Rightarrow> string" where
  "status Good = ''Good '' @ [CHR 0xF0, CHR 0x9F, CHR 0x98, CHR 0x8A]"
| "status Moderate = ''Moderate '' @ [CHR 0xF0, CHR 0x9F, CHR 0x99, CHR 0x82]"
| "status UnhealthySensitive =
     ''Unhealthy (Sens.) '' @ [CHR 0xF0, CHR 0x9F, CHR 0x98, CHR 0x90]"
| "status Unhealthy = ''Unhealthy '' @ [CHR 0xF0, CHR 0x9F, CHR 0x98, CHR 0xB7]"
| "status VeryUnhealthy = ''Very Unhealthy '' @ [CHR 0xF0, CHR 0x9F, CHR 0xA4, CHR 0xA2]"
| "status Hazardous =
     ''Hazardous '' @ [CHR 0xE2, CHR 0x98, CHR 0xA0, CHR 0xEF, CHR 0xB8, CHR 0x8F]"

fun color :: "SeverityBand \<Rightarrow> string" where
  "color Good = ''#00e400''"
| "color Moderate = ''#ffff00''"
| "color UnhealthySensitive = ''#ff7e00''"
| "color Unhealthy = ''#ff0000''"
| "color VeryUnhealthy = ''#8f3f97''"
| "color Hazardous = ''#7e0023''"

text \<open>The position of a band on the scale, from least to most severe.\<close>

fun severity :: "SeverityBand \<Rightarrow> nat" where
  "severity Good = 0"
| "severity Moderate = 1"
| "severity UnhealthySensitive = 2"
| "severity Unhealthy = 3"
| "severity VeryUnhealthy = 4"
| "severity Hazardous = 5"

subsection \<open>The remote store\<close>

text \<open>
  The client of the store, as state. \<open>outcomes c k limit\<close> is what the \<open>k\<close>-th round trip
  of the session does when asked for \<open>limit\<close> rows: it raises (\<open>Inl\<close>) or returns a
  response. \<open>calls\<close> counts the round trips made so far.
\<close>

record response =
  data :: "row list"

record client =
  outcomes :: "nat \<Rightarrow> int \<Rightarrow> py_error + response"
  calls :: nat

text \<open>
  Line 59: the query \<^verbatim>\<open>select * order by id desc limit L\<close>, one round trip.
\<close>

definition execute :: "client \<Rightarrow> int \<Rightarrow> (py_error + response) \<times> client" where
  "execute c limit = (outcomes c (calls c) limit, c\<lparr>calls := Suc (calls c)\<rparr>)"

text \<open>
  Lines 56--62. The bare \<^verbatim>\<open>except:\<close> catches whatever the query raises and returns
  the empty list; nothing is raised to the caller, so the result has no error part.
\<close>

definition get_latest_data :: "client \<Rightarrow> int \<Rightarrow> row list \<times> client" where
  "get_latest_data c limit =
     (case execute c limit of
        (Inr response, c') \<Rightarrow> (data response, c')
      | (Inl e, c') \<Rightarrow> ([], c'))"

subsection \<open>What a view draws\<close>

text \<open>
  A chart point, and a named series of them (one trace of a line chart).
\<close>

type_synonym point = "timestamp \<times> cell"

type_synonym series = "string \<times> point list"

text \<open>
  The value of a metric tile: the integer itself, or a cell followed by a unit
  (the f-strings of lines 97 and 98).
\<close>

datatype metric_value = IntValue int | WithUnit cell string

text \<open>
  The elements the views emit. Arguments that only style an element (page width,
  chart height, markers, chart title) are left out. \<open>Caption s t\<close> is the text \<open>s\<close>
  followed by the wall-clock time of \<open>t\<close> in its zone; \<open>StatusBar s c a\<close> is the HTML
  block of lines 103--117, which interpolates the status, the colour and the AQI.
\<close>

datatype element =
    Title string
  | Columns "element list"
  | Metric string metric_value
  | Caption string timestamp
  | StatusBar string string int
  | Markdown string
  | Subheader string
  | LineChart "series list"
  | DataTable "df_row list"
  | Info string
  | Write string
  | ExceptionBox py_error

text \<open>The trace of one column of the frame against its \<^verbatim>\<open>Timestamp\<close> column.\<close>

definition trace :: "string \<Rightarrow> (df_row \<Rightarrow> cell) \<Rightarrow> df_row list \<Rightarrow> series" where
  "trace name col df = (name, map (\<lambda>r. (Timestamp r, col r)) df)"

subsection \<open>The live view\<close>

text \<open>
  Lines 71--127: the body of \<^verbatim>\<open>show_live_monitor\<close> once the rows are fetched.
  \<^verbatim>\<open>int(latest['AQI'])\<close> is the one call that can raise on a non-empty batch, and it
  does so before anything is drawn.
\<close>

definition live_view :: "row list \<Rightarrow> py_error + element list" where
  "live_view rows =
     (if rows \<noteq> [] then
        (case load_frame rows of
           Inl e \<Rightarrow> Inl e
         | Inr df \<Rightarrow>
             (case iloc0 df of
                Inl e \<Rightarrow> Inl e
              | Inr latest \<Rightarrow>
                  (case int_py (AQI latest) of
                     Inl e \<Rightarrow> Inl e
                   | Inr a \<Rightarrow>
                       (let temp = Temperature latest;
                            hum = Humidity latest;
                            band = classify a;
                            df_sorted = sort_values df
                        in Inr
                          [Title ([CHR 0xF0, CHR 0x9F, CHR 0x9F, CHR 0xA2] @ '' Live AQI Monitoring''),
                           Columns
                             [Metric ''AQI Level'' (IntValue a),
                              Metric ''Temperature'' (WithUnit temp ('' '' @ [CHR 0xC2, CHR 0xB0] @ ''C'')),
                              Metric ''Humidity'' (WithUnit hum '' %'')],
                           Caption ''Last Updated: '' (Timestamp latest),
                           StatusBar (status band) (color band) a,
                           Markdown ''---'',
                           Subheader ([CHR 0xF0, CHR 0x9F, CHR 0x93, CHR 0x88] @ '' Live Trend''),
                           LineChart [trace ''AQI'' AQI df_sorted]]))))
      else Inr [Info ''Connecting to cloud...''])"

text \<open>Lines 68--69: the fetch of the last 50 rows, then the body.\<close>

definition show_live_monitor :: "client \<Rightarrow> (py_error + element list) \<times> client" where
  "show_live_monitor c =
     (case get_latest_data c 50 of (rows, c') \<Rightarrow> (live_view rows, c'))"

text \<open>
  The fragment of line 67 is re-run by a timer. A run writes its elements over the
  fragment's previous ones, position by position, and when the run ends the elements
  of the previous run that were not written over are removed. An exception ends the
  run and is shown in place of the output.
\<close>

definition emitted :: "py_error + element list \<Rightarrow> element list" where
  "emitted out = (case out of Inl e \<Rightarrow> [ExceptionBox e] | Inr els \<Rightarrow> els)"

definition write_over :: "element list \<Rightarrow> element list \<Rightarrow> element list" where
  "write_over prev els = els @ drop (length els) prev"

definition clear_stale :: "nat \<Rightarrow> element list \<Rightarrow> element list" where
  "clear_stale n frame = take n frame"

definition fragment_run :: "element list \<Rightarrow> py_error + element list \<Rightarrow> element list" where
  "fragment_run prev out =
     clear_stale (length (emitted out)) (write_over prev (emitted out))"

text \<open>One refresh cycle of the live view: the store's client and the frame on screen.\<close>

definition refresh_cycle :: "client \<times> element list \<Rightarrow> client \<times> element list" where
  "refresh_cycle s =
     (case s of (c, prev) \<Rightarrow>
        (case show_live_monitor c of (out, c') \<Rightarrow> (c', fragment_run prev out)))"

subsection \<open>The historical view\<close>

text \<open>
  Line 151 calls \<^verbatim>\<open>px.line\<close> with a list of columns for \<^verbatim>\<open>y\<close> (wide form). The call
  first compares the kinds of the listed columns, integer and float columns counting
  as one kind, and raises \<^verbatim>\<open>ValueError\<close> when they differ. A column that is null in
  every row is an object column; a column with a number in it is a numeric one.
\<close>

datatype dtype_kind = NumberKind | ObjectKind

definition column_kind :: "cell list \<Rightarrow> dtype_kind" where
  "column_kind cs = (if list_all (\<lambda>c. c = NaNCell) cs then ObjectKind else NumberKind)"

text \<open>
  The conversion of a 64-bit integer to a float: exact up to \<open>2 ^ 53\<close> in magnitude,
  and beyond that the nearest number with 53 significant bits, a tie going to the
  even one.
\<close>

function bit_length :: "int \<Rightarrow> nat" where
  "bit_length n = (if n \<le> 0 then 0 else Suc (bit_length (n div 2)))"
  by pat_completeness auto
termination
  by (relation "measure nat") auto

declare bit_length.simps [simp del]

definition float64_of_int :: "int \<Rightarrow> rat" where
  "float64_of_int n =
     (if \<bar>n\<bar> \<le> 2 ^ 53 then of_int n
      else
        (let e = bit_length \<bar>n\<bar> - 53;
             q = \<bar>n\<bar> div 2 ^ e;
             r = \<bar>n\<bar> mod 2 ^ e;
             half = 2 ^ (e - 1);
             m = (if half < r \<or> (r = half \<and> odd q) then q + 1 else q)
         in of_int (sgn n * m * 2 ^ e)))"

text \<open>
  The wide form stacks the listed columns into one column of values. That column is a
  float column as soon as one of the listed cells is not an integer, and then every
  integer in it is converted.
\<close>

definition float_values :: "(string \<times> (df_row \<Rightarrow> cell)) list \<Rightarrow> df_row list \<Rightarrow> bool" where
  "float_values ys df =
     list_ex (\<lambda>y. list_ex (\<lambda>r. case snd y r of IntCell n \<Rightarrow> False | _ \<Rightarrow> True) df) ys"

definition melt_cell :: "bool \<Rightarrow> cell \<Rightarrow> cell" where
  "melt_cell as_float c =
     (case c of
        IntCell n \<Rightarrow> (if as_float then FloatCell (float64_of_int n) else IntCell n)
      | _ \<Rightarrow> c)"

definition px_line_wide ::
  "(string \<times> (df_row \<Rightarrow> cell)) list \<Rightarrow> df_row list \<Rightarrow> py_error + series list" where
  "px_line_wide ys df =
     (let kinds = map (\<lambda>y. column_kind (map (snd y) df)) ys
      in if list_ex (\<lambda>k. k \<noteq> hd kinds) kinds then Inl ValueError
         else Inr (map (\<lambda>y. (fst y,
                 map (\<lambda>r. (Timestamp r, melt_cell (float_values ys df) (snd y r))) df)) ys))"

text \<open>
  Lines 133--164: what \<^verbatim>\<open>show_history\<close> draws for the rows it fetched (the title of
  line 133 is drawn before the fetch), and the exception that ended the run, if any.
  When \<^verbatim>\<open>px.line\<close> raises, the title and the first subheader are on the page already,
  and neither the chart nor the table is drawn.
\<close>

definition history_view :: "row list \<Rightarrow> element list \<times> py_error option" where
  "history_view rows =
     (if rows \<noteq> [] then
        (case load_frame rows of
           Inl e \<Rightarrow>
             ([Title ([CHR 0xF0, CHR 0x9F, CHR 0x93, CHR 0x81] @ '' Historical Data'')], Some e)
         | Inr df \<Rightarrow>
             (let df_sorted = sort_values df
              in case px_line_wide
                   [(''AQI'', AQI), (''Temperature'', Temperature), (''Humidity'', Humidity)]
                   df_sorted of
                   Inl e \<Rightarrow>
                     ([Title ([CHR 0xF0, CHR 0x9F, CHR 0x93, CHR 0x81] @ '' Historical Data''),
                       Subheader ([CHR 0xF0, CHR 0x9F, CHR 0x93, CHR 0x8A] @ '' Full History Trends'')],
                      Some e)
                 | Inr fig \<Rightarrow>
                     ([Title ([CHR 0xF0, CHR 0x9F, CHR 0x93, CHR 0x81] @ '' Historical Data''),
                       Subheader ([CHR 0xF0, CHR 0x9F, CHR 0x93, CHR 0x8A] @ '' Full History Trends''),
                       LineChart fig,
                       Subheader
                         ([CHR 0xF0, CHR 0x9F, CHR 0x93, CHR 0x84] @ '' Data Log (Newest First)''),
                       DataTable df],
                      None)))
      else
        ([Title ([CHR 0xF0, CHR 0x9F, CHR 0x93, CHR 0x81] @ '' Historical Data''),
          Write ''No data found.''],
         None))"

text \<open>Lines 132--137: the fetch of the last 1000 rows, then the body.\<close>

definition show_history :: "client \<Rightarrow> (element list \<times> py_error option) \<times> client" where
  "show_history c =
     (case get_latest_data c 1000 of (rows, c') \<Rightarrow> (history_view rows, c'))"

subsection \<open>Reading a drawn frame\<close>

text \<open>The traces of the charts in a frame, and the points a frame shows for a metric.\<close>

fun traces :: "element list \<Rightarrow> series list" where
  "traces [] = []"
| "traces (LineChart ss # els) = ss @ traces els"
| "traces (_ # els) = traces els"

definition points_of :: "string \<Rightarrow> element list \<Rightarrow> point list" where
  "points_of name els = concat (map snd (filter (\<lambda>s. fst s = name) (traces els)))"

text \<open>The tiles laid out in the columns of a frame.\<close>

fun tiles :: "element list \<Rightarrow> element list" where
  "tiles [] = []"
| "tiles (Columns cs # els) = cs @ tiles els"
| "tiles (_ # els) = tiles els"

text \<open>A frame shows data when it holds a tile, a status bar, a chart or a table.\<close>

fun shows_data :: "element list \<Rightarrow> bool" where
  "shows_data [] = False"
| "shows_data (Columns _ # _) = True"
| "shows_data (Metric _ _ # _) = True"
| "shows_data (StatusBar _ _ _ # _) = True"
| "shows_data (LineChart _ # _) = True"
| "shows_data (DataTable _ # _) = True"
| "shows_data (_ # els) = shows_data els"


subsection \<open>Batches of readings\<close>

text \<open>
  A batch has numeric columns when each charted column holds a number in some row.
  A batch has mixed values when some charted cell is not an integer. A cell fits an
  integer column when it is not an integer outside the 64-bit range, and it is exact
  when it is not an integer beyond \<open>2 ^ 53\<close> in magnitude.
\<close>

definition numeric_columns :: "row list \<Rightarrow> bool" where
  "numeric_columns rows =
     (list_ex (\<lambda>r. aqi r \<noteq> NaNCell) rows \<and>
      list_ex (\<lambda>r. temperature r \<noteq> NaNCell) rows \<and>
      list_ex (\<lambda>r. humidity r \<noteq> NaNCell) rows)"

definition mixed_values :: "row list \<Rightarrow> bool" where
  "mixed_values rows =
     list_ex (\<lambda>r. list_ex (\<lambda>c. case c of IntCell n \<Rightarrow> False | _ \<Rightarrow> True)
       [aqi r, temperature r, humidity r]) rows"


fun int64_cell :: "cell \<Rightarrow> bool" where
  "int64_cell (IntCell n) = (- (2 ^ 63) \<le> n \<and> n < 2 ^ 63)"
| "int64_cell _ = True"

definition int64_values :: "row list \<Rightarrow> bool" where
  "int64_values rows =
     list_all (\<lambda>r. int64_cell (aqi r) \<and> int64_cell (temperature r) \<and> int64_cell (humidity r)) rows"


subsection \<open>Sample data\<close>

text \<open>
  A batch of three rows, newest first (its AQI and temperature columns are float
  columns, its other columns integer ones), and a client whose second round trip
  fails while every other one returns that batch.
\<close>

definition sample_rows :: "row list" where
  "sample_rows =
     [\<lparr>row_id = 5, created_at = 300, mq135 = IntCell 410, temperature = FloatCell (51 / 2),
       humidity = IntCell 40, aqi = FloatCell (509 / 10)\<rparr>,
      \<lparr>row_id = 4, created_at = 200, mq135 = IntCell 400, temperature = FloatCell 25,
       humidity = IntCell 41, aqi = FloatCell 120\<rparr>,
      \<lparr>row_id = 3, created_at = 100, mq135 = IntCell 395, temperature = NaNCell,
       humidity = IntCell 42, aqi = FloatCell 301\<rparr>]"



definition flaky_client :: client where
  "flaky_client =
     \<lparr>outcomes =
        (\<lambda>k limit. if k = 1 then Inl (APIError ''timeout'') else Inr \<lparr>data = sample_rows\<rparr>),
      calls = 0\<rparr>"

section \<open>Properties\<close>

lemmas model_defs =
  get_latest_data_def execute_def load_frame_def rename_row_def to_datetime_def tz_convert_def
  sort_values_def trace_def classify_def trunc_toward_zero_def live_view_def history_view_def
  show_live_monitor_def show_history_def emitted_def write_over_def clear_stale_def
  fragment_run_def refresh_cycle_def points_of_def column_kind_def float_values_def
  melt_cell_def px_line_wide_def Let_def

subsection \<open>The classifier\<close>

text \<open>
  C1. The boundary inputs fall as the threshold table says: 50 is Good, 51 is
  Moderate, 300 is VeryUnhealthy, 301 is Hazardous; and each band is exactly the
  interval that ends, inclusively, at its threshold: 50, 100, 150, 200, 300, and no
  upper end for Hazardous.
\<close>

theorem classify_boundaries:
  "classify 50 = Good \<and> classify 51 = Moderate \<and>
   classify 300 = VeryUnhealthy \<and> classify 301 = Hazardous \<and>
   (classify a = Good) = (a \<le> 50) \<and>
   (classify a = Moderate) = (50 < a \<and> a \<le> 100) \<and>
   (classify a = UnhealthySensitive) = (100 < a \<and> a \<le> 150) \<and>
   (classify a = Unhealthy) = (150 < a \<and> a \<le> 200) \<and>
   (classify a = VeryUnhealthy) = (200 < a \<and> a \<le> 300) \<and>
   (classify a = Hazardous) = (300 < a)"
  by (simp add: classify_def)

text \<open>
  C6. The classifier is monotonic: a higher AQI value never gets a band lower on the
  scale than a lower value does.
\<close>

theorem classify_monotone:
  "a \<le> b \<Longrightarrow> severity (classify a) \<le> severity (classify b)"
  by (simp add: classify_def)

theorem classify_monotone_witness:
  "severity (classify 50) \<le> severity (classify 301) \<and>
   severity (classify 50) = 0 \<and> severity (classify 301) = 5"
  using classify_monotone [of 50 301] by (simp add: classify_def)

text \<open>
  C7. The classifier is a function of the integer alone, defined on every integer
  (the comparisons of the chain cannot raise): every value above 300 is Hazardous,
  whatever its size, and a negative value is treated as Good, as 0 is.
\<close>

theorem classify_total:
  "(\<exists>band. classify a = band) \<and>
   (300 < a \<longrightarrow> classify a = Hazardous) \<and>
   (a < 0 \<longrightarrow> classify a = Good) \<and>
   classify a = classify (max 0 a)"
  by (simp add: classify_def)

theorem classify_total_witness:
  "classify 1000000 = Hazardous \<and> classify (- 7) = Good \<and> classify (- 7) = classify 0"
  using classify_total [of 1000000] classify_total [of "- 7"] by (simp add: classify_def)

subsection \<open>The fetch\<close>

text \<open>
  C3. For every positive limit, when the query fails, \<^verbatim>\<open>get_latest_data\<close> returns the
  empty list: the error does not reach the caller, and exactly one round trip has
  been made (no retry).
\<close>

theorem get_latest_data_failure:
  "0 < limit \<Longrightarrow> outcomes c (calls c) limit = Inl e \<Longrightarrow>
   get_latest_data c limit = ([], c\<lparr>calls := Suc (calls c)\<rparr>)"
  by (simp add: get_latest_data_def execute_def)

theorem get_latest_data_failure_witness:
  "fst (get_latest_data (flaky_client\<lparr>calls := 1\<rparr>) 50) = [] \<and>
   calls (snd (get_latest_data (flaky_client\<lparr>calls := 1\<rparr>) 50)) = 2 \<and>
   fst (get_latest_data (flaky_client\<lparr>calls := 2\<rparr>) 50) = sample_rows"
  using get_latest_data_failure [of 50 "flaky_client\<lparr>calls := 1\<rparr>" "APIError ''timeout''"]
  by (simp add: flaky_client_def get_latest_data_def execute_def)

subsection \<open>Empty results\<close>

text \<open>
  C2. When the fetch of a refresh cycle returns the empty list, the live view emits
  the ``connecting'' indicator and nothing else, and that is the whole frame after the
  cycle, whatever frame the previous cycle left.
\<close>

theorem live_empty:
  "fst (get_latest_data c 50) = [] \<Longrightarrow>
   fst (show_live_monitor c) = Inr [Info ''Connecting to cloud...''] \<and>
   snd (refresh_cycle (c, prev)) = [Info ''Connecting to cloud...''] \<and>
   \<not> shows_data (snd (refresh_cycle (c, prev)))"
  by (cases "get_latest_data c 50")
    (simp add: show_live_monitor_def refresh_cycle_def live_view_def fragment_run_def
      emitted_def write_over_def clear_stale_def)

theorem live_empty_witness:
  "shows_data (snd (refresh_cycle (flaky_client, []))) \<and>
   snd (refresh_cycle (refresh_cycle (flaky_client, []))) = [Info ''Connecting to cloud...'']"
  using live_empty [of "fst (refresh_cycle (flaky_client, []))"
      "snd (refresh_cycle (flaky_client, []))"]
  by (simp add: flaky_client_def sample_rows_def model_defs)

text \<open>
  C9. When the fetch of the historical view returns the empty list, the view does not
  raise: it draws its title and the text ``No data found.'', with no chart and no
  table.
\<close>

theorem history_empty:
  "fst (get_latest_data c 1000) = [] \<Longrightarrow>
   fst (show_history c) =
     ([Title ([CHR 0xF0, CHR 0x9F, CHR 0x93, CHR 0x81] @ '' Historical Data''),
       Write ''No data found.''], None) \<and>
   \<not> shows_data (fst (fst (show_history c))) \<and>
   traces (fst (fst (show_history c))) = []"
  by (cases "get_latest_data c 1000") (simp add: show_history_def history_view_def)

theorem history_empty_witness:
  "fst (show_history (snd (show_history flaky_client))) =
     ([Title ([CHR 0xF0, CHR 0x9F, CHR 0x93, CHR 0x81] @ '' Historical Data''),
       Write ''No data found.''], None) \<and>
   shows_data (fst (fst (show_history flaky_client)))"
  using history_empty [of "snd (show_history flaky_client)"]
  by (simp add: flaky_client_def sample_rows_def model_defs)

subsection \<open>The latest reading\<close>

lemma hd_is_max:
  "rows \<noteq> [] \<Longrightarrow> sorted_wrt (\<lambda>x y. row_id y \<le> row_id x) rows \<Longrightarrow>
   row_id (hd rows) = Max (row_id ` set rows)"
  by (cases rows) (auto intro!: Max_eqI [symmetric])

lemma live_view_guarded:
  "live_view rows \<noteq> Inl IndexError \<and> live_view rows \<noteq> Inl KeyError"
proof (cases rows)
  case Nil
  then show ?thesis by (simp add: live_view_def)
next
  case (Cons r rs)
  show ?thesis
    by (cases "aqi r") (simp_all add: Cons live_view_def load_frame_def rename_row_def Let_def)
qed

lemma live_view_latest:
  "rows \<noteq> [] \<Longrightarrow> int_py (aqi (hd rows)) = Inr a \<Longrightarrow>
   \<exists>els. live_view rows = Inr els \<and>
     tiles els =
       [Metric ''AQI Level'' (IntValue a),
        Metric ''Temperature''
          (WithUnit (temperature (hd rows)) ('' '' @ [CHR 0xC2, CHR 0xB0] @ ''C'')),
        Metric ''Humidity'' (WithUnit (humidity (hd rows)) '' %'')] \<and>
     Caption ''Last Updated: '' (Timestamp (rename_row (hd rows))) \<in> set els"
  by (cases rows) (simp_all add: live_view_def load_frame_def Let_def rename_row_def)

lemma live_view_raises:
  "rows \<noteq> [] \<Longrightarrow> int_py (aqi (hd rows)) = Inl e \<Longrightarrow> live_view rows = Inl e"
  by (cases rows) (simp_all add: live_view_def load_frame_def Let_def rename_row_def)

text \<open>
  C5. The latest reading is the first row of the frame. On a non-empty batch in
  newest-first order that is the first row of the input, which has the greatest id,
  and it is the row the live view shows: its tiles hold the AQI (as an integer), the
  temperature and the humidity of the first row, and its caption the first row's
  time; if the first row's AQI cannot be made an integer the view raises and draws
  nothing.
  On empty input the access fails (the positional access with \<^verbatim>\<open>IndexError\<close>, the
  building of the frame before it with \<^verbatim>\<open>KeyError\<close>); the live view checks for
  emptiness first and never meets either failure.
\<close>

theorem latest_is_first:
  "iloc0 [] = Inl IndexError \<and> load_frame [] = Inl KeyError \<and>
   live_view rows \<noteq> Inl IndexError \<and> live_view rows \<noteq> Inl KeyError \<and>
   (rows \<noteq> [] \<and> sorted_wrt (\<lambda>x y. row_id y \<le> row_id x) rows \<longrightarrow>
      (\<exists>df. load_frame rows = Inr df \<and> iloc0 df = Inr (rename_row (hd rows)) \<and>
            df_id (rename_row (hd rows)) = Max (row_id ` set rows))) \<and>
   (rows \<noteq> [] \<longrightarrow>
      (\<forall>a. int_py (aqi (hd rows)) = Inr a \<longrightarrow>
         (\<exists>els. live_view rows = Inr els \<and>
            tiles els =
              [Metric ''AQI Level'' (IntValue a),
               Metric ''Temperature''
                 (WithUnit (temperature (hd rows)) ('' '' @ [CHR 0xC2, CHR 0xB0] @ ''C'')),
               Metric ''Humidity'' (WithUnit (humidity (hd rows)) '' %'')] \<and>
            Caption ''Last Updated: '' (Timestamp (rename_row (hd rows))) \<in> set els)) \<and>
      (\<forall>e. int_py (aqi (hd rows)) = Inl e \<longrightarrow> (\<exists>e'. live_view rows = Inl e')))"
proof (intro conjI impI allI)
  show "iloc0 [] = Inl IndexError" by simp
next
  show "load_frame [] = Inl KeyError" by (simp add: load_frame_def)
next
  show "live_view rows \<noteq> Inl IndexError" using live_view_guarded [of rows] by simp
next
  show "live_view rows \<noteq> Inl KeyError" using live_view_guarded [of rows] by simp
next
  assume a: "rows \<noteq> [] \<and> sorted_wrt (\<lambda>x y. row_id y \<le> row_id x) rows"
  then obtain r rs where rows: "rows = r # rs" by (cases rows) auto
  have "load_frame rows = Inr (map rename_row rows)"
    using a by (simp add: load_frame_def)
  moreover have "iloc0 (map rename_row rows) = Inr (rename_row (hd rows))"
    by (simp add: rows)
  moreover have "df_id (rename_row (hd rows)) = Max (row_id ` set rows)"
    using a hd_is_max [of rows] by (simp add: rename_row_def)
  ultimately show "\<exists>df. load_frame rows = Inr df \<and> iloc0 df = Inr (rename_row (hd rows)) \<and>
            df_id (rename_row (hd rows)) = Max (row_id ` set rows)"
    by simp
next
  fix a
  assume "rows \<noteq> []" "int_py (aqi (hd rows)) = Inr a"
  then show "\<exists>els. live_view rows = Inr els \<and>
            tiles els =
              [Metric ''AQI Level'' (IntValue a),
               Metric ''Temperature''
                 (WithUnit (temperature (hd rows)) ('' '' @ [CHR 0xC2, CHR 0xB0] @ ''C'')),
               Metric ''Humidity'' (WithUnit (humidity (hd rows)) '' %'')] \<and>
            Caption ''Last Updated: '' (Timestamp (rename_row (hd rows))) \<in> set els"
    by (rule live_view_latest)
next
  fix e
  assume "rows \<noteq> []" "int_py (aqi (hd rows)) = Inl e"
  then show "\<exists>e'. live_view rows = Inl e'" using live_view_raises by blast
qed

theorem latest_is_first_witness:
  "tiles (emitted (live_view sample_rows)) =
     [Metric ''AQI Level'' (IntValue 50),
      Metric ''Temperature'' (WithUnit (FloatCell (51 / 2)) ('' '' @ [CHR 0xC2, CHR 0xB0] @ ''C'')),
      Metric ''Humidity'' (WithUnit (IntCell 40) '' %'')] \<and>
   Caption ''Last Updated: '' \<lparr>instant = 300, tz = ''Asia/Kolkata''\<rparr>
     \<in> set (emitted (live_view sample_rows)) \<and>
   row_id (hd sample_rows) = 5 \<and> Max (row_id ` set sample_rows) = 5"
  using latest_is_first [of sample_rows]
  by (simp add: sample_rows_def model_defs floor_eq_iff)

subsection \<open>Chart series\<close>

lemma sorted_sort_values: "sorted (map (\<lambda>r. instant (Timestamp r)) (sort_values df))"
  by (simp add: sort_values_def)

lemma length_sort_values: "length (sort_values df) = length df"
  by (simp add: sort_values_def)

lemma set_sort_values: "set (sort_values df) = set df"
  by (simp add: sort_values_def)


lemma trace_sorted: "sorted (map (instant \<circ> fst) (snd (trace name col (sort_values df))))"
  using sorted_sort_values [of df] by (simp add: trace_def comp_def)

lemma trace_length: "length (snd (trace name col df)) = length df"
  by (simp add: trace_def)

lemma live_view_traces:
  "live_view rows = Inr els \<Longrightarrow> rows \<noteq> [] \<Longrightarrow>
   traces els = [trace ''AQI'' AQI (sort_values (map rename_row rows))]"
  by (auto simp: live_view_def load_frame_def Let_def split: sum.splits if_splits)

lemma column_kind_sorted: "column_kind (map col (sort_values df)) = column_kind (map col df)"
  by (simp add: column_kind_def list_all_iff set_sort_values)

lemma float_values_sorted: "float_values ys (sort_values df) = float_values ys df"
  by (simp add: float_values_def list_ex_iff set_sort_values)

lemma float_values_rows:
  "float_values [(''AQI'', AQI), (''Temperature'', Temperature), (''Humidity'', Humidity)]
     (map rename_row rows) = mixed_values rows"
  by (auto simp: float_values_def mixed_values_def list_ex_iff rename_row_def)

lemma column_kind_number:
  "list_ex (\<lambda>r. col (rename_row r) \<noteq> NaNCell) rows \<Longrightarrow>
   column_kind (map col (map rename_row rows)) = NumberKind"
  by (auto simp: column_kind_def list_all_iff list_ex_iff)

text \<open>The three series of the historical chart, as the wide form builds them.\<close>

lemma px_line_wide_cases:
  "px_line_wide ys df = Inl ValueError \<or>
   px_line_wide ys df =
     Inr (map (\<lambda>y. (fst y, map (\<lambda>r. (Timestamp r, melt_cell (float_values ys df) (snd y r))) df)) ys)"
  by (simp add: px_line_wide_def Let_def)

lemma px_line_wide_numeric:
  assumes "numeric_columns rows"
  shows "px_line_wide [(''AQI'', AQI), (''Temperature'', Temperature), (''Humidity'', Humidity)]
           (sort_values (map rename_row rows)) =
         Inr [(''AQI'', map (\<lambda>r. (Timestamp r, melt_cell (mixed_values rows) (AQI r)))
                 (sort_values (map rename_row rows))),
              (''Temperature'', map (\<lambda>r. (Timestamp r, melt_cell (mixed_values rows) (Temperature r)))
                 (sort_values (map rename_row rows))),
              (''Humidity'', map (\<lambda>r. (Timestamp r, melt_cell (mixed_values rows) (Humidity r)))
                 (sort_values (map rename_row rows)))]"
proof -
  have a: "column_kind (map AQI (map rename_row rows)) = NumberKind"
    using assms by (intro column_kind_number) (simp add: numeric_columns_def rename_row_def)
  have t: "column_kind (map Temperature (map rename_row rows)) = NumberKind"
    using assms by (intro column_kind_number) (simp add: numeric_columns_def rename_row_def)
  have h: "column_kind (map Humidity (map rename_row rows)) = NumberKind"
    using assms by (intro column_kind_number) (simp add: numeric_columns_def rename_row_def)
  show ?thesis
    using a t h
    by (simp add: px_line_wide_def Let_def column_kind_sorted float_values_sorted
        float_values_rows del: map_map)
qed

lemma numeric_columns_nonempty: "numeric_columns rows \<Longrightarrow> rows \<noteq> []"
  by (auto simp: numeric_columns_def)

lemma history_view_numeric:
  assumes "numeric_columns rows"
  shows "snd (history_view rows) = None \<and>
         traces (fst (history_view rows)) =
           [(''AQI'', map (\<lambda>r. (Timestamp r, melt_cell (mixed_values rows) (AQI r)))
                 (sort_values (map rename_row rows))),
            (''Temperature'', map (\<lambda>r. (Timestamp r, melt_cell (mixed_values rows) (Temperature r)))
                 (sort_values (map rename_row rows))),
            (''Humidity'', map (\<lambda>r. (Timestamp r, melt_cell (mixed_values rows) (Humidity r)))
                 (sort_values (map rename_row rows)))]"
  using numeric_columns_nonempty [OF assms] px_line_wide_numeric [OF assms]
  by (simp add: history_view_def load_frame_def Let_def)

lemma history_view_traces_sorted:
  "\<forall>s \<in> set (traces (fst (history_view rows))).
     sorted (map (instant \<circ> fst) (snd s)) \<and> length (snd s) = length rows"
proof (cases "rows = []")
  case True
  then show ?thesis by (simp add: history_view_def)
next
  case False
  let ?ys = "[(''AQI'', AQI), (''Temperature'', Temperature), (''Humidity'', Humidity)]"
  let ?df = "sort_values (map rename_row rows)"
  from px_line_wide_cases [of ?ys ?df] show ?thesis
  proof
    assume "px_line_wide ?ys ?df = Inl ValueError"
    then show ?thesis using False by (simp add: history_view_def load_frame_def Let_def)
  next
    assume "px_line_wide ?ys ?df =
      Inr (map (\<lambda>y. (fst y, map (\<lambda>r. (Timestamp r, melt_cell (float_values ?ys ?df) (snd y r))) ?df)) ?ys)"
    then show ?thesis
      using False sorted_sort_values [of "map rename_row rows"]
      by (simp add: history_view_def load_frame_def Let_def comp_def length_sort_values)
  qed
qed

text \<open>
  C4. For a non-empty batch (in newest-first order or any other), every series a
  view charts is in ascending order of timestamp, oldest first, with one point per
  row. The historical view charts the AQI, Temperature and Humidity series whenever
  each of these columns holds a number in some row (and the integers fit an integer
  column); the live view charts its AQI series whenever it draws.
\<close>

theorem charts_ascending:
  "rows \<noteq> [] \<Longrightarrow>
   (\<forall>els. live_view rows = Inr els \<longrightarrow>
      (\<forall>s \<in> set (traces els).
         sorted (map (instant \<circ> fst) (snd s)) \<and> length (snd s) = length rows)) \<and>
   (\<forall>s \<in> set (traces (fst (history_view rows))).
      sorted (map (instant \<circ> fst) (snd s)) \<and> length (snd s) = length rows) \<and>
   (numeric_columns rows \<and> int64_values rows \<longrightarrow>
      snd (history_view rows) = None \<and>
      map fst (traces (fst (history_view rows))) = [''AQI'', ''Temperature'', ''Humidity''])"
proof (intro conjI allI impI)
  fix els
  assume "rows \<noteq> []" "live_view rows = Inr els"
  then have "traces els = [trace ''AQI'' AQI (sort_values (map rename_row rows))]"
    by (simp add: live_view_traces)
  then show "\<forall>s \<in> set (traces els).
      sorted (map (instant \<circ> fst) (snd s)) \<and> length (snd s) = length rows"
    by (simp add: trace_sorted trace_length length_sort_values)
next
  show "\<forall>s \<in> set (traces (fst (history_view rows))).
      sorted (map (instant \<circ> fst) (snd s)) \<and> length (snd s) = length rows"
    by (rule history_view_traces_sorted)
next
  assume "numeric_columns rows \<and> int64_values rows"
  then have "numeric_columns rows" by simp
  then show "snd (history_view rows) = None"
    using history_view_numeric by blast
next
  assume "numeric_columns rows \<and> int64_values rows"
  then have "numeric_columns rows" by simp
  then show "map fst (traces (fst (history_view rows))) = [''AQI'', ''Temperature'', ''Humidity'']"
    using history_view_numeric [of rows] by simp
qed

theorem charts_ascending_witness:
  "map (\<lambda>s. (fst s, map (instant \<circ> fst) (snd s))) (traces (fst (history_view sample_rows))) =
     [(''AQI'', [100, 200, 300]), (''Temperature'', [100, 200, 300]),
      (''Humidity'', [100, 200, 300])] \<and>
   snd (history_view sample_rows) = None \<and>
   map (\<lambda>s. (fst s, map (instant \<circ> fst) (snd s))) (traces (emitted (live_view sample_rows))) =
     [(''AQI'', [100, 200, 300])]"
  using charts_ascending [of sample_rows]
  by (simp add: sample_rows_def model_defs floor_eq_iff)

subsection \<open>Round trip\<close>










subsection \<open>The displayed AQI\<close>

lemma trunc_toward_zero_bounds:
  "\<bar>of_int (trunc_toward_zero q)\<bar> \<le> \<bar>q\<bar> \<and> \<bar>q - of_int (trunc_toward_zero q)\<bar> < 1"
proof (cases "0 \<le> q")
  case True
  have t: "trunc_toward_zero q = \<lfloor>q\<rfloor>"
    using True by (simp add: trunc_toward_zero_def)
  have "(0::rat) \<le> of_int \<lfloor>q\<rfloor>" using True by simp
  moreover have "of_int \<lfloor>q\<rfloor> \<le> q" by (rule of_int_floor_le)
  moreover have "q < of_int \<lfloor>q\<rfloor> + 1" by linarith
  ultimately show ?thesis unfolding t by linarith
next
  case False
  have t: "trunc_toward_zero q = \<lceil>q\<rceil>"
    using False by (simp add: trunc_toward_zero_def)
  have "of_int \<lceil>q\<rceil> \<le> (0::rat)" using False by (simp add: ceiling_le_zero)
  moreover have "q \<le> of_int \<lceil>q\<rceil>" by (rule le_of_int_ceiling)
  moreover have "of_int \<lceil>q\<rceil> < q + 1" by linarith
  ultimately show ?thesis unfolding t by linarith
qed

lemma trunc_509_10: "trunc_toward_zero (509 / 10) = 50"
  by (simp add: trunc_toward_zero_def floor_eq_iff)

lemma live_view_nonempty:
  "rows \<noteq> [] \<Longrightarrow> int_py (aqi (hd rows)) = Inr a \<Longrightarrow>
   \<exists>els. live_view rows = Inr els \<and>
     Metric ''AQI Level'' (IntValue a) \<in> set (tiles els) \<and>
     StatusBar (status (classify a)) (color (classify a)) a \<in> set els"
  by (cases rows) (simp_all add: live_view_def load_frame_def Let_def rename_row_def)

lemma live_view_int_py:
  "rows \<noteq> [] \<Longrightarrow> live_view rows = Inr els \<Longrightarrow> \<exists>a. int_py (aqi (hd rows)) = Inr a"
  by (cases rows) (auto simp: live_view_def load_frame_def Let_def rename_row_def split: sum.splits)

text \<open>
  C10. For a non-empty batch, whenever the live view draws, the value in its AQI tile
  and in its status bar, and the value whose band gives the status and the colour, is
  \<^verbatim>\<open>int(latest['AQI'])\<close> for the first row of the batch. A float is truncated toward
  zero before the thresholds are compared (the result is within 1 of the float and no
  larger in magnitude), so a stored 50.9 is shown as 50 and classified Good.
\<close>

theorem live_aqi_truncated:
  "rows \<noteq> [] \<Longrightarrow>
   (\<forall>els. live_view rows = Inr els \<longrightarrow>
      (\<exists>a. int_py (aqi (hd rows)) = Inr a \<and>
           Metric ''AQI Level'' (IntValue a) \<in> set (tiles els) \<and>
           StatusBar (status (classify a)) (color (classify a)) a \<in> set els)) \<and>
   (\<forall>q. aqi (hd rows) = FloatCell q \<longrightarrow>
      (\<exists>els. live_view rows = Inr els) \<and>
      int_py (aqi (hd rows)) = Inr (trunc_toward_zero q) \<and>
      \<bar>of_int (trunc_toward_zero q)\<bar> \<le> \<bar>q\<bar> \<and> \<bar>q - of_int (trunc_toward_zero q)\<bar> < 1) \<and>
   (aqi (hd rows) = FloatCell (509 / 10) \<longrightarrow>
      (\<exists>els. live_view rows = Inr els \<and>
         Metric ''AQI Level'' (IntValue 50) \<in> set (tiles els) \<and>
         StatusBar (status Good) (color Good) 50 \<in> set els))"
proof (intro conjI allI impI)
  fix els
  assume ne: "rows \<noteq> []" and ok: "live_view rows = Inr els"
  then obtain a where a: "int_py (aqi (hd rows)) = Inr a"
    using live_view_int_py by blast
  with ne obtain els' where "live_view rows = Inr els'"
     "Metric ''AQI Level'' (IntValue a) \<in> set (tiles els')"
     "StatusBar (status (classify a)) (color (classify a)) a \<in> set els'"
    using live_view_nonempty by blast
  with ok a show "\<exists>a. int_py (aqi (hd rows)) = Inr a \<and>
           Metric ''AQI Level'' (IntValue a) \<in> set (tiles els) \<and>
           StatusBar (status (classify a)) (color (classify a)) a \<in> set els"
    by auto
next
  fix q
  assume "rows \<noteq> []" "aqi (hd rows) = FloatCell q"
  then show "\<exists>els. live_view rows = Inr els"
    using live_view_nonempty [of rows "trunc_toward_zero q"] by auto
next
  fix q
  assume "aqi (hd rows) = FloatCell q"
  then show "int_py (aqi (hd rows)) = Inr (trunc_toward_zero q)" by simp
next
  fix q
  show "\<bar>of_int (trunc_toward_zero q)\<bar> \<le> \<bar>q\<bar>"
    using trunc_toward_zero_bounds [of q] by simp
next
  fix q
  show "\<bar>q - of_int (trunc_toward_zero q)\<bar> < 1"
    using trunc_toward_zero_bounds [of q] by simp
next
  assume ne: "rows \<noteq> []" and a: "aqi (hd rows) = FloatCell (509 / 10)"
  have "int_py (aqi (hd rows)) = Inr 50" using a trunc_509_10 by simp
  from live_view_nonempty [OF ne this]
  show "\<exists>els. live_view rows = Inr els \<and>
         Metric ''AQI Level'' (IntValue 50) \<in> set (tiles els) \<and>
         StatusBar (status Good) (color Good) 50 \<in> set els"
    by (simp add: classify_def)
qed

theorem live_aqi_truncated_witness:
  "Metric ''AQI Level'' (IntValue 50) \<in> set (tiles (emitted (live_view sample_rows))) \<and>
   StatusBar (status Good) (color Good) 50 \<in> set (emitted (live_view sample_rows)) \<and>
   classify (trunc_toward_zero (509 / 10)) = Good \<and>
   trunc_toward_zero (- (1 / 2)) = 0"
  using live_aqi_truncated [of sample_rows]
  by (simp add: sample_rows_def model_defs floor_eq_iff ceiling_eq_iff)

end
